theory Spec2Isabelle
  imports Complex_Main "HOL-Library.Sublist"
begin

section \<open>Python values\<close>

text \<open>
  The program (\<^verbatim>\<open>app_fixed.py\<close>) works on decoded JSON: dictionaries, lists, strings,
  numbers, booleans and \<^verbatim>\<open>None\<close>. A string is a \<^typ>\<open>string\<close>, its characters read as
  code points below 256. A dictionary is an association list read from the left (the
  first pair with a key is the entry for that key).
\<close>

datatype pyfloat = Finite rat | PosInf | NegInf | NaN

datatype json =
    JNull
  | JBool bool
  | JInt int
  | JFloat pyfloat
  | JStr string
  | JArr "json list"
  | JObj "(string \<times> json) list"

datatype error =
    AttributeError
  | TypeError
  | ValueError
  | OverflowError
  | OSError
  | RequestException
  | HTTPError
  | JSONDecodeError
  | CsvError

text \<open>\<^verbatim>\<open>bool(v)\<close>, as \<^verbatim>\<open>if v\<close>, \<^verbatim>\<open>not v\<close> and \<^verbatim>\<open>v or w\<close> use it.\<close>

fun truthy :: "json \<Rightarrow> bool" where
  "truthy JNull = False"
| "truthy (JBool b) = b"
| "truthy (JInt n) = (n \<noteq> 0)"
| "truthy (JFloat (Finite q)) = (q \<noteq> 0)"
| "truthy (JFloat _) = True"
| "truthy (JStr s) = (s \<noteq> [])"
| "truthy (JArr xs) = (xs \<noteq> [])"
| "truthy (JObj kvs) = (kvs \<noteq> [])"

definition py_or :: "json \<Rightarrow> json \<Rightarrow> json" where
  "py_or v w = (if truthy v then v else w)"

text \<open>\<^verbatim>\<open>d.get(k)\<close> and \<^verbatim>\<open>d.get(k, default)\<close> on a dictionary.\<close>

definition dict_get :: "(string \<times> json) list \<Rightarrow> string \<Rightarrow> json" where
  "dict_get kvs k = (case map_of kvs k of None \<Rightarrow> JNull | Some v \<Rightarrow> v)"

definition dict_get_default :: "(string \<times> json) list \<Rightarrow> string \<Rightarrow> json \<Rightarrow> json" where
  "dict_get_default kvs k d = (case map_of kvs k of None \<Rightarrow> d | Some v \<Rightarrow> v)"

fun dict_keys :: "(string \<times> json) list \<Rightarrow> string list" where
  "dict_keys [] = []"
| "dict_keys ((k, v) # kvs) = k # filter (\<lambda>k'. k' \<noteq> k) (dict_keys kvs)"

subsection \<open>Characters and strings\<close>

definition code :: "char \<Rightarrow> nat" where
  "code c = of_char c"

text \<open>\<^verbatim>\<open>str.lower\<close>: the upper-case letters below 256 are A..Z and U+00C0..U+00DE without
  U+00D7; each maps to the code point 32 above it.\<close>

definition lower_char :: "char \<Rightarrow> char" where
  "lower_char c =
     (if (65 \<le> code c \<and> code c \<le> 90) \<or> (192 \<le> code c \<and> code c \<le> 222 \<and> code c \<noteq> 215)
      then char_of (code c + 32) else c)"

definition lower :: "string \<Rightarrow> string" where
  "lower s = map lower_char s"

text \<open>\<^verbatim>\<open>ch.isdigit()\<close>: below 256 the digits are 0..9 and the superscripts U+00B2, U+00B3,
  U+00B9; only 0..9 are decimal digits that \<^verbatim>\<open>int\<close> accepts.\<close>

definition is_decimal :: "char \<Rightarrow> bool" where
  "is_decimal c = (48 \<le> code c \<and> code c \<le> 57)"

definition isdigit_char :: "char \<Rightarrow> bool" where
  "isdigit_char c = (is_decimal c \<or> code c = 178 \<or> code c = 179 \<or> code c = 185)"

definition isdigit :: "string \<Rightarrow> bool" where
  "isdigit s = (s \<noteq> [] \<and> list_all isdigit_char s)"

definition isspace_char :: "char \<Rightarrow> bool" where
  "isspace_char c =
     ((9 \<le> code c \<and> code c \<le> 13) \<or> (28 \<le> code c \<and> code c \<le> 32) \<or> code c = 133 \<or> code c = 160)"

definition strip :: "string \<Rightarrow> string" where
  "strip s = rev (dropWhile isspace_char (rev (dropWhile isspace_char s)))"

text \<open>\<^verbatim>\<open>sub in s\<close> on strings is \<^term>\<open>sublist sub s\<close>.\<close>

definition endswith :: "string \<Rightarrow> string \<Rightarrow> bool" where
  "endswith s suf = suffix suf s"

subsection \<open>Conversions between integers and strings\<close>

definition digit_char :: "nat \<Rightarrow> char" where
  "digit_char d = char_of (48 + d)"

function dec_nat :: "nat \<Rightarrow> string" where
  "dec_nat n = (if n < 10 then [digit_char n] else dec_nat (n div 10) @ [digit_char (n mod 10)])"
  by pat_completeness auto
termination
  by (relation "measure id") auto

declare dec_nat.simps [simp del]

text \<open>\<^verbatim>\<open>str(i)\<close> for an integer, as an f-string renders it.\<close>

definition str_int :: "int \<Rightarrow> string" where
  "str_int i = (if i < 0 then CHR ''-'' # dec_nat (nat (- i)) else dec_nat (nat i))"

text \<open>\<^verbatim>\<open>int(s)\<close> for a string: surrounding white space is dropped, one sign is allowed,
  then decimal digits, where single underscores may stand between two digits.
  The interpreter's configurable limit on the number of digits is outside the model.\<close>

fun dec_digits :: "string \<Rightarrow> nat \<Rightarrow> nat option" where
  "dec_digits [] acc = Some acc"
| "dec_digits (c # cs) acc =
     (if is_decimal c then dec_digits cs (acc * 10 + (code c - 48))
      else if c = CHR ''_'' then
        (case cs of [] \<Rightarrow> None
         | d # ds \<Rightarrow> if is_decimal d then dec_digits cs acc else None)
      else None)"

definition dec_body :: "string \<Rightarrow> nat option" where
  "dec_body s = (case s of [] \<Rightarrow> None | c # cs \<Rightarrow> if is_decimal c then dec_digits s 0 else None)"

definition int_of_str :: "string \<Rightarrow> int option" where
  "int_of_str s =
     (case strip s of
        [] \<Rightarrow> None
      | c # cs \<Rightarrow>
          if c = CHR ''-'' then map_option (\<lambda>n. - int n) (dec_body cs)
          else if c = CHR ''+'' then map_option int (dec_body cs)
          else map_option int (dec_body (c # cs)))"

text \<open>\<^verbatim>\<open>int(v)\<close>: \<open>Inl\<close> is the exception raised. A float is truncated towards zero.\<close>

definition trunc :: "rat \<Rightarrow> int" where
  "trunc q = (if 0 \<le> q then \<lfloor>q\<rfloor> else \<lceil>q\<rceil>)"

fun py_int :: "json \<Rightarrow> error + int" where
  "py_int JNull = Inl TypeError"
| "py_int (JBool b) = Inr (if b then 1 else 0)"
| "py_int (JInt n) = Inr n"
| "py_int (JFloat (Finite q)) = Inr (trunc q)"
| "py_int (JFloat NaN) = Inl ValueError"
| "py_int (JFloat _) = Inl OverflowError"
| "py_int (JStr s) = (case int_of_str s of None \<Rightarrow> Inl ValueError | Some n \<Rightarrow> Inr n)"
| "py_int (JArr xs) = Inl TypeError"
| "py_int (JObj kvs) = Inl TypeError"

text \<open>The behaviour of the standard library that the program relies on and that is not
  written out here: the text of a float, a list or a dictionary (\<^verbatim>\<open>str\<close>),
  \<^verbatim>\<open>datetime.fromisoformat\<close>, \<^verbatim>\<open>urlparse\<close> and \<^verbatim>\<open>csv.reader\<close>.\<close>

record datetime =
  wall_us :: int
  utcoffset_us :: "int option"

record parsed_url =
  scheme :: string
  hostname :: "string option"
  path :: string

record pylib =
  repr_other :: "json \<Rightarrow> string"
  fromisoformat :: "string \<Rightarrow> datetime option"
  urlparse :: "string \<Rightarrow> parsed_url option"
  csv_reader :: "string \<Rightarrow> string list list option"

text \<open>\<^verbatim>\<open>str(v)\<close>, also what an f-string puts for \<^verbatim>\<open>{v}\<close>.\<close>

fun py_str :: "pylib \<Rightarrow> json \<Rightarrow> string" where
  "py_str py JNull = ''None''"
| "py_str py (JBool b) = (if b then ''True'' else ''False'')"
| "py_str py (JInt n) = str_int n"
| "py_str py (JStr s) = s"
| "py_str py v = repr_other py v"

text \<open>\<^verbatim>\<open>len(v)\<close> and iteration over \<^verbatim>\<open>v\<close> (as \<^verbatim>\<open>list.extend\<close> does); a dictionary yields
  its keys, a string its characters, a number or \<^verbatim>\<open>None\<close> raises.\<close>

fun py_len :: "json \<Rightarrow> error + int" where
  "py_len (JArr xs) = Inr (int (length xs))"
| "py_len (JStr s) = Inr (int (length s))"
| "py_len (JObj kvs) = Inr (int (length (dict_keys kvs)))"
| "py_len v = Inl TypeError"

fun py_iter :: "json \<Rightarrow> error + json list" where
  "py_iter (JArr xs) = Inr xs"
| "py_iter (JStr s) = Inr (map (\<lambda>c. JStr [c]) s)"
| "py_iter (JObj kvs) = Inr (map JStr (dict_keys kvs))"
| "py_iter v = Inl TypeError"

text \<open>\<^verbatim>\<open>xs[:n]\<close>: a negative bound counts from the end.\<close>

definition slice_to :: "'a list \<Rightarrow> int \<Rightarrow> 'a list" where
  "slice_to xs n = (if 0 \<le> n then take (nat n) xs else take (length xs - nat (- n)) xs)"

text \<open>Membership in a Python set of hashable values: numbers compare by value whatever
  their type, a NaN equals nothing, and a list or dictionary cannot be hashed.\<close>

fun numval :: "json \<Rightarrow> pyfloat option" where
  "numval (JBool b) = Some (Finite (if b then 1 else 0))"
| "numval (JInt n) = Some (Finite (of_int n))"
| "numval (JFloat f) = Some f"
| "numval v = None"

definition py_eq :: "json \<Rightarrow> json \<Rightarrow> bool" where
  "py_eq a b =
     (case (numval a, numval b) of
        (Some x, Some y) \<Rightarrow> x = y \<and> x \<noteq> NaN
      | (None, None) \<Rightarrow> a = b
      | _ \<Rightarrow> False)"

fun hashable :: "json \<Rightarrow> bool" where
  "hashable (JArr xs) = False"
| "hashable (JObj kvs) = False"
| "hashable v = True"

definition set_contains :: "json list \<Rightarrow> json \<Rightarrow> error + bool" where
  "set_contains seen v = (if hashable v then Inr (list_ex (py_eq v) seen) else Inl TypeError)"

section \<open>Configuration constants\<close>

text \<open>The module-level constants. A Python set of strings is kept as the list of its
  elements.\<close>

record config =
  FRIENDLY_OWNER_IDS :: "int set"
  BA_UK_GROUP_IDS :: "int set"
  BLACKLISTED_GROUP_IDS :: "int set"
  BA_BADGE_IDS :: "int set"
  IFD_BLACKLIST_IDS :: "int set"
  BA_BLACKLIST_IDS :: "int set"
  NSFW_WORDS :: "string list"
  BA_MEMBER_IMPERSONATION_LIST :: "string list"
  MIN_ACCOUNT_AGE_DAYS :: int
  MIN_FRIEND_COUNT :: int
  MIN_NON_BA_GROUP_COUNT :: int
  MIN_BADGE_COUNT :: int
  OLDEST_BADGES_TO_CHECK :: int
  USERNAME_DIGIT_THRESHOLD :: int
  MAX_BADGE_PAGES :: int
  REQUEST_TIMEOUT :: int

section \<open>The remote API\<close>

text \<open>
  A request is one call of \<^verbatim>\<open>_session.get\<close>. The server is any function from the
  requests made so far and the present request to a reply; \<open>NoReply\<close> is a call that
  raises. A reply is described by what the program reads from it: whether
  \<^verbatim>\<open>raise_for_status\<close> passes, the decoded text of its content, and the result of
  \<^verbatim>\<open>r.json()\<close> (\<open>None\<close> when that raises). Every function that calls the API takes
  the list of requests made so far and returns it extended.
\<close>

datatype request =
    GetAvatar int
  | GetFriendCount int
  | GetBadges int string "json option"
  | GetSheet string

datatype reply = NoReply | Reply bool string "json option"

type_synonym server = "request list \<Rightarrow> request \<Rightarrow> reply"

text \<open>\<^verbatim>\<open>r = _session.get(...); r.raise_for_status(); data = r.json()\<close>\<close>

definition fetch_json :: "server \<Rightarrow> request \<Rightarrow> request list \<Rightarrow> (error + json) \<times> request list" where
  "fetch_json srv req reqs =
     (case srv reqs req of
        NoReply \<Rightarrow> (Inl RequestException, reqs @ [req])
      | Reply ok body js \<Rightarrow>
          if \<not> ok then (Inl HTTPError, reqs @ [req])
          else (case js of
                  None \<Rightarrow> (Inl JSONDecodeError, reqs @ [req])
                | Some v \<Rightarrow> (Inr v, reqs @ [req])))"

datatype 'a loop = Break 'a | Continue 'a

text \<open>\<^verbatim>\<open>if cursor: params["cursor"] = cursor\<close>\<close>

definition cursor_param :: "json \<Rightarrow> json option" where
  "cursor_param c = (if truthy c then Some c else None)"

subsection \<open>get_oldest_badges\<close>

record badge_scan =
  badges :: "json list"
  cursor :: json
  seen_cursors :: "json list"

text \<open>One pass through the body of the \<^verbatim>\<open>while\<close> loop, after \<^verbatim>\<open>pages += 1\<close>. Every
  exception inside \<^verbatim>\<open>try\<close> leaves the loop; what \<^verbatim>\<open>badges.extend\<close> has added before
  the exception stays.\<close>

definition oldest_page :: "server \<Rightarrow> int \<Rightarrow> badge_scan \<Rightarrow> request list \<Rightarrow> badge_scan loop \<times> request list" where
  "oldest_page srv user_id st reqs =
     (let req = GetBadges user_id ''Asc'' (cursor_param (cursor st)) in
      case fetch_json srv req reqs of
        (Inl e, reqs') \<Rightarrow> (Break st, reqs')
      | (Inr data, reqs') \<Rightarrow>
          (case data of
             JObj kvs \<Rightarrow>
               (let new_badges = dict_get_default kvs ''data'' (JArr []) in
                if \<not> truthy new_badges then (Break st, reqs')
                else
                  (case py_iter new_badges of
                     Inl e \<Rightarrow> (Break st, reqs')
                   | Inr items \<Rightarrow>
                       (let st1 = st\<lparr>badges := badges st @ items\<rparr>;
                            next_cursor = py_or (dict_get kvs ''nextPageCursor'') (JStr [])
                        in case set_contains (seen_cursors st1) next_cursor of
                             Inl e \<Rightarrow> (Break st1, reqs')
                           | Inr True \<Rightarrow> (Break st1, reqs')
                           | Inr False \<Rightarrow>
                               if \<not> truthy next_cursor then (Break st1, reqs')
                               else (Continue (st1\<lparr>seen_cursors := seen_cursors st1 @ [next_cursor],
                                                   cursor := next_cursor\<rparr>), reqs'))))
           | _ \<Rightarrow> (Break st, reqs')))"

function oldest_loop ::
  "server \<Rightarrow> int \<Rightarrow> int \<Rightarrow> int \<Rightarrow> badge_scan \<Rightarrow> int \<Rightarrow> request list \<Rightarrow> badge_scan \<times> request list" where
  "oldest_loop srv user_id total_limit max_pages st pages reqs =
     (if int (length (badges st)) < total_limit \<and> pages < max_pages then
        (case oldest_page srv user_id st reqs of
           (Break st', reqs') \<Rightarrow> (st', reqs')
         | (Continue st', reqs') \<Rightarrow> oldest_loop srv user_id total_limit max_pages st' (pages + 1) reqs')
      else (st, reqs))"
  by pat_completeness auto
termination
  by (relation "measure (\<lambda>(srv, user_id, total_limit, max_pages, st, pages, reqs). nat (max_pages - pages))") auto

declare oldest_loop.simps [simp del]

definition get_oldest_badges ::
  "config \<Rightarrow> server \<Rightarrow> int \<Rightarrow> int \<Rightarrow> request list \<Rightarrow> json list \<times> request list" where
  "get_oldest_badges cfg srv user_id total_limit reqs =
     (case oldest_loop srv user_id total_limit (MAX_BADGE_PAGES cfg)
             \<lparr>badges = [], cursor = JStr [], seen_cursors = []\<rparr> 0 reqs of
        (st, reqs') \<Rightarrow> (slice_to (badges st) total_limit, reqs'))"

subsection \<open>get_total_badge_count\<close>

record badge_count =
  total_badges :: int
  count_cursor :: json
  count_seen :: "json list"

definition count_page :: "server \<Rightarrow> int \<Rightarrow> int \<Rightarrow> badge_count \<Rightarrow> request list \<Rightarrow> badge_count loop \<times> request list" where
  "count_page srv user_id pass_threshold st reqs =
     (let req = GetBadges user_id ''Desc'' (cursor_param (count_cursor st)) in
      case fetch_json srv req reqs of
        (Inl e, reqs') \<Rightarrow> (Break st, reqs')
      | (Inr data, reqs') \<Rightarrow>
          (case data of
             JObj kvs \<Rightarrow>
               (let new_badges = dict_get_default kvs ''data'' (JArr []) in
                if \<not> truthy new_badges then (Break st, reqs')
                else
                  (case py_len new_badges of
                     Inl e \<Rightarrow> (Break st, reqs')
                   | Inr n \<Rightarrow>
                       (let st1 = st\<lparr>total_badges := total_badges st + n\<rparr> in
                        if total_badges st1 \<ge> pass_threshold then (Break st1, reqs')
                        else
                          (let next_cursor = py_or (dict_get kvs ''nextPageCursor'') (JStr []) in
                           if \<not> truthy next_cursor then (Break st1, reqs')
                           else (case set_contains (count_seen st1) next_cursor of
                                   Inl e \<Rightarrow> (Break st1, reqs')
                                 | Inr True \<Rightarrow> (Break st1, reqs')
                                 | Inr False \<Rightarrow>
                                     (Continue (st1\<lparr>count_seen := count_seen st1 @ [next_cursor],
                                                     count_cursor := next_cursor\<rparr>), reqs'))))))
           | _ \<Rightarrow> (Break st, reqs')))"

function count_loop ::
  "server \<Rightarrow> int \<Rightarrow> int \<Rightarrow> int \<Rightarrow> badge_count \<Rightarrow> int \<Rightarrow> request list \<Rightarrow> badge_count \<times> request list" where
  "count_loop srv user_id pass_threshold max_pages st pages reqs =
     (if pages < max_pages then
        (case count_page srv user_id pass_threshold st reqs of
           (Break st', reqs') \<Rightarrow> (st', reqs')
         | (Continue st', reqs') \<Rightarrow> count_loop srv user_id pass_threshold max_pages st' (pages + 1) reqs')
      else (st, reqs))"
  by pat_completeness auto
termination
  by (relation "measure (\<lambda>(srv, user_id, pass_threshold, max_pages, st, pages, reqs). nat (max_pages - pages))") auto

declare count_loop.simps [simp del]

definition get_total_badge_count ::
  "config \<Rightarrow> server \<Rightarrow> int \<Rightarrow> int \<Rightarrow> request list \<Rightarrow> int \<times> request list" where
  "get_total_badge_count cfg srv user_id pass_threshold reqs =
     (case count_loop srv user_id pass_threshold (MAX_BADGE_PAGES cfg)
             \<lparr>total_badges = 0, count_cursor = JStr [], count_seen = []\<rparr> 0 reqs of
        (st, reqs') \<Rightarrow> (total_badges st, reqs'))"

section \<open>Configuration resolver\<close>



text \<open>\<^verbatim>\<open>_to_int_set\<close>: the loop over a list keeps the elements \<^verbatim>\<open>int\<close> accepts.\<close>

definition add_int :: "int set \<Rightarrow> json \<Rightarrow> int set" where
  "add_int out v = (case py_int v of Inl e \<Rightarrow> out | Inr n \<Rightarrow> insert n out)"

fun to_int_set :: "json \<Rightarrow> int set" where
  "to_int_set JNull = {}"
| "to_int_set (JArr xs) = foldl add_int {} xs"
| "to_int_set v = add_int {} v"

text \<open>\<^verbatim>\<open>_to_str_set\<close>\<close>

definition add_str :: "pylib \<Rightarrow> string list \<Rightarrow> json \<Rightarrow> string list" where
  "add_str py out v = List.insert (lower (py_str py v)) out"

fun to_str_set :: "pylib \<Rightarrow> json \<Rightarrow> string list" where
  "to_str_set py JNull = []"
| "to_str_set py (JArr xs) = foldl (add_str py) [] xs"
| "to_str_set py v = add_str py [] v"

text \<open>\<^verbatim>\<open>_get_int_cfg\<close>\<close>

definition get_int_cfg :: "(string \<times> json) list \<Rightarrow> string \<Rightarrow> int \<Rightarrow> int" where
  "get_int_cfg config key dflt =
     (case py_int (dict_get_default config key (JInt dflt)) of Inl e \<Rightarrow> dflt | Inr n \<Rightarrow> n)"

text \<open>The module-level assignments that follow \<^verbatim>\<open>config = load_config()\<close>.\<close>

definition resolve :: "pylib \<Rightarrow> (string \<times> json) list \<Rightarrow> config" where
  "resolve py config =
     \<lparr> FRIENDLY_OWNER_IDS = to_int_set (dict_get_default config ''FRIENDLY_OWNER_IDS'' (JArr [])),
       BA_UK_GROUP_IDS = to_int_set (dict_get_default config ''BA_UK_GROUP_IDS'' (JArr [])),
       BLACKLISTED_GROUP_IDS = to_int_set (dict_get_default config ''BLACKLISTED_GROUP_IDS'' (JArr [])),
       BA_BADGE_IDS = to_int_set (dict_get_default config ''BA_BADGE_IDS'' (JArr [])),
       IFD_BLACKLIST_IDS = to_int_set (dict_get_default config ''IFD_BLACKLIST_IDS'' (JArr [])),
       BA_BLACKLIST_IDS = to_int_set (dict_get_default config ''BA_BLACKLIST_IDS'' (JArr [])),
       NSFW_WORDS = to_str_set py (dict_get_default config ''NSFW_WORDS'' (JArr [])),
       BA_MEMBER_IMPERSONATION_LIST =
         to_str_set py (dict_get_default config ''BA_MEMBER_IMPERSONATION_LIST'' (JArr [])),
       MIN_ACCOUNT_AGE_DAYS = get_int_cfg config ''MIN_ACCOUNT_AGE_DAYS'' 60,
       MIN_FRIEND_COUNT = get_int_cfg config ''MIN_FRIEND_COUNT'' 30,
       MIN_NON_BA_GROUP_COUNT = get_int_cfg config ''MIN_NON_BA_GROUP_COUNT'' 13,
       MIN_BADGE_COUNT = get_int_cfg config ''MIN_BADGE_COUNT'' 300,
       OLDEST_BADGES_TO_CHECK = get_int_cfg config ''OLDEST_BADGES_TO_CHECK'' 90,
       USERNAME_DIGIT_THRESHOLD = get_int_cfg config ''USERNAME_DIGIT_THRESHOLD'' 4,
       MAX_BADGE_PAGES = get_int_cfg config ''MAX_BADGE_PAGES'' 10,
       REQUEST_TIMEOUT = get_int_cfg config ''REQUEST_TIMEOUT_SECONDS'' 6 \<rparr>"


section \<open>Rule evaluators\<close>

subsection \<open>check_account_age\<close>

text \<open>\<^verbatim>\<open>s.replace("Z", "+00:00")\<close>\<close>

definition replace_Z :: "string \<Rightarrow> string" where
  "replace_Z s = concat (map (\<lambda>c. if c = CHR ''Z'' then ''+00:00'' else [c]) s)"


text \<open>The \<^verbatim>\<open>try\<close> block: \<open>None\<close> is any exception in it (a value without
  \<^verbatim>\<open>endswith\<close>, or a string \<^verbatim>\<open>fromisoformat\<close> rejects). A naive time read in the
  \<^verbatim>\<open>else\<close> branch gets the UTC zone.\<close>

definition parse_created :: "pylib \<Rightarrow> json \<Rightarrow> datetime option" where
  "parse_created py created_str =
     (case created_str of
        JStr s \<Rightarrow>
          if endswith s ''Z'' then fromisoformat py (replace_Z s)
          else (case fromisoformat py s of
                  None \<Rightarrow> None
                | Some d \<Rightarrow>
                    if utcoffset_us d = None then Some (d\<lparr>utcoffset_us := Some 0\<rparr>) else Some d)
      | _ \<Rightarrow> None)"




subsection \<open>check_username\<close>







subsection \<open>check_blacklists\<close>

text \<open>\<^verbatim>\<open>int(x) if x is not None else None\<close> inside \<^verbatim>\<open>try\<close>, with \<^verbatim>\<open>None\<close> on an exception.\<close>

definition int_or_none :: "json \<Rightarrow> int option" where
  "int_or_none v = (case py_int v of Inl e \<Rightarrow> None | Inr n \<Rightarrow> Some n)"

definition in_ids :: "int option \<Rightarrow> int set \<Rightarrow> bool" where
  "in_ids v ids = (case v of None \<Rightarrow> False | Some n \<Rightarrow> n \<in> ids)"

definition owner_id_of :: "(string \<times> json) list \<Rightarrow> int option" where
  "owner_id_of grp =
     (case dict_get grp ''owner'' of
        JObj owner \<Rightarrow> int_or_none (dict_get owner ''userId'')
      | _ \<Rightarrow> None)"

definition blacklisted_msg :: "pylib \<Rightarrow> (string \<times> json) list \<Rightarrow> string" where
  "blacklisted_msg py grp = ''User is in a blacklisted group: '' @ py_str py (dict_get grp ''name'') @ ''.''"

definition lookalike_msg :: "pylib \<Rightarrow> (string \<times> json) list \<Rightarrow> string" where
  "lookalike_msg py grp = ''User is in another British Army group: '' @ py_str py (dict_get grp ''name'') @ ''.''"

definition group_name_of :: "pylib \<Rightarrow> (string \<times> json) list \<Rightarrow> string" where
  "group_name_of py grp = lower (py_str py (dict_get_default grp ''name'' (JStr [])))"

text \<open>The body of \<^verbatim>\<open>for item in groups_list\<close>: the reasons one membership adds.\<close>

definition group_dismissals :: "pylib \<Rightarrow> config \<Rightarrow> json \<Rightarrow> string list" where
  "group_dismissals py cfg item =
     (case (case item of JObj kvs \<Rightarrow> dict_get kvs ''group'' | _ \<Rightarrow> JNull) of
        JObj grp \<Rightarrow>
          (let group_name = group_name_of py grp;
               owner_id = owner_id_of grp;
               group_id_int = int_or_none (dict_get grp ''id'')
           in (if in_ids group_id_int (BLACKLISTED_GROUP_IDS cfg) then [blacklisted_msg py grp] else [])
              @ (if sublist ''british army'' group_name
                    \<and> \<not> in_ids group_id_int (BA_UK_GROUP_IDS cfg)
                    \<and> \<not> in_ids owner_id (FRIENDLY_OWNER_IDS cfg)
                 then [lookalike_msg py grp] else []))
      | _ \<Rightarrow> [])"

definition check_blacklists :: "pylib \<Rightarrow> config \<Rightarrow> int \<Rightarrow> json list \<Rightarrow> int set \<Rightarrow> string list" where
  "check_blacklists py cfg user_id groups ifd_blacklist =
     (if user_id \<in> ifd_blacklist then [''User is on the IFD Blacklist.''] else [])
     @ (if user_id \<in> BA_BLACKLIST_IDS cfg then [''User is on the BA Blacklist.''] else [])
     @ concat (map (group_dismissals py cfg) groups)"

subsection \<open>check_social_activity\<close>

text \<open>\<^verbatim>\<open>get_friend_count\<close>: every exception gives \<^verbatim>\<open>None\<close>.\<close>

definition get_friend_count :: "server \<Rightarrow> int \<Rightarrow> request list \<Rightarrow> int option \<times> request list" where
  "get_friend_count srv user_id reqs =
     (case fetch_json srv (GetFriendCount user_id) reqs of
        (Inl e, reqs') \<Rightarrow> (None, reqs')
      | (Inr data, reqs') \<Rightarrow>
          (case data of
             JObj kvs \<Rightarrow> (int_or_none (dict_get kvs ''count''), reqs')
           | _ \<Rightarrow> (None, reqs')))"


text \<open>The body of \<^verbatim>\<open>for g in groups_list\<close>: whether the membership counts as a group
  outside the recognised ones. \<^verbatim>\<open>grp.get("id")\<close> is outside any \<^verbatim>\<open>try\<close>, so a
  \<^verbatim>\<open>group\<close> entry that is true and not a dictionary raises.\<close>

definition is_non_ba_group :: "config \<Rightarrow> json \<Rightarrow> error + bool" where
  "is_non_ba_group cfg g =
     (let grp = (case g of JObj kvs \<Rightarrow> dict_get kvs ''group'' | _ \<Rightarrow> JNull) in
      if \<not> truthy grp then Inr False
      else (case grp of
              JObj gkvs \<Rightarrow>
                (let gid = dict_get gkvs ''id'' in
                 if gid = JNull then Inr False
                 else (case py_int gid of
                         Inl e \<Rightarrow> Inr False
                       | Inr gid_int \<Rightarrow> Inr (gid_int \<notin> BA_UK_GROUP_IDS cfg)))
            | _ \<Rightarrow> Inl AttributeError))"

fun count_non_ba_groups :: "config \<Rightarrow> json list \<Rightarrow> int \<Rightarrow> error + int" where
  "count_non_ba_groups cfg [] n = Inr n"
| "count_non_ba_groups cfg (g # gs) n =
     (case is_non_ba_group cfg g of
        Inl e \<Rightarrow> Inl e
      | Inr b \<Rightarrow> count_non_ba_groups cfg gs (if b then n + 1 else n))"

text \<open>\<^verbatim>\<open>for badge in oldest_badges\<close>: the flag of the first badge whose identifier is in
  \<^verbatim>\<open>BA_BADGE_IDS\<close>, after which the loop is left. \<^verbatim>\<open>badge.get("id")\<close> is outside the
  \<^verbatim>\<open>try\<close>.\<close>

definition ba_badge_msg :: "pylib \<Rightarrow> json \<Rightarrow> string" where
  "ba_badge_msg py bid = ''BA-related badge found among oldest badges (ID: '' @ py_str py bid @ '').''"

fun scan_oldest :: "pylib \<Rightarrow> config \<Rightarrow> json list \<Rightarrow> error + string list" where
  "scan_oldest py cfg [] = Inr []"
| "scan_oldest py cfg (badge # rest) =
     (case badge of
        JObj kvs \<Rightarrow>
          (let bid = dict_get kvs ''id'' in
           if bid = JNull then scan_oldest py cfg rest
           else (case py_int bid of
                   Inl e \<Rightarrow> scan_oldest py cfg rest
                 | Inr n \<Rightarrow>
                     if n \<in> BA_BADGE_IDS cfg then Inr [ba_badge_msg py bid]
                     else scan_oldest py cfg rest))
      | _ \<Rightarrow> Inl AttributeError)"

definition friend_flags :: "config \<Rightarrow> int option \<Rightarrow> string list" where
  "friend_flags cfg friend_count =
     (case friend_count of
        None \<Rightarrow> [''Could not verify friend count.'']
      | Some n \<Rightarrow>
          if n < MIN_FRIEND_COUNT cfg
          then [''Fewer than '' @ str_int (MIN_FRIEND_COUNT cfg) @ '' friends ('' @ str_int n @ '').'']
          else [])"

definition group_flags :: "config \<Rightarrow> int \<Rightarrow> string list" where
  "group_flags cfg non_ba_group_count =
     (if non_ba_group_count < MIN_NON_BA_GROUP_COUNT cfg
      then [''Fewer than '' @ str_int (MIN_NON_BA_GROUP_COUNT cfg) @ '' non-BA groups (''
              @ str_int non_ba_group_count @ '').'']
      else [])"

definition badge_flags :: "config \<Rightarrow> int \<Rightarrow> string list" where
  "badge_flags cfg badge_count =
     (if badge_count < MIN_BADGE_COUNT cfg
      then [''Fewer than '' @ str_int (MIN_BADGE_COUNT cfg) @ '' badges ('' @ str_int badge_count
              @ '' total).'']
      else [])"

definition check_social_activity ::
  "pylib \<Rightarrow> config \<Rightarrow> server \<Rightarrow> int \<Rightarrow> json list \<Rightarrow> request list \<Rightarrow> (error + string list) \<times> request list" where
  "check_social_activity py cfg srv user_id groups reqs =
     (case get_friend_count srv user_id reqs of
        (friend_count, reqs1) \<Rightarrow>
          (case count_non_ba_groups cfg groups 0 of
             Inl e \<Rightarrow> (Inl e, reqs1)
           | Inr non_ba_group_count \<Rightarrow>
               (case get_total_badge_count cfg srv user_id (MIN_BADGE_COUNT cfg) reqs1 of
                  (badge_count, reqs2) \<Rightarrow>
                    (case get_oldest_badges cfg srv user_id (min (OLDEST_BADGES_TO_CHECK cfg) 100) reqs2 of
                       (oldest_badges, reqs3) \<Rightarrow>
                         (case scan_oldest py cfg oldest_badges of
                            Inl e \<Rightarrow> (Inl e, reqs3)
                          | Inr found \<Rightarrow>
                              (Inr (friend_flags cfg friend_count
                                    @ group_flags cfg non_ba_group_count
                                    @ badge_flags cfg badge_count
                                    @ found), reqs3))))))"

section \<open>Live blacklist\<close>

text \<open>The cells of the sheet that are kept: stripped, all digits, and accepted by
  \<^verbatim>\<open>int\<close> (a superscript digit passes \<^verbatim>\<open>isdigit\<close> and is then refused).\<close>

definition add_cell :: "int set \<Rightarrow> string \<Rightarrow> int set" where
  "add_cell ids col =
     (let s = strip col in
      if isdigit s then (case int_of_str s of None \<Rightarrow> ids | Some n \<Rightarrow> insert n ids) else ids)"

definition collect_ids :: "string list list \<Rightarrow> int set" where
  "collect_ids rows = foldl (\<lambda>ids row. foldl add_cell ids row) {} rows"

text \<open>The \<^verbatim>\<open>try\<close> block of \<^verbatim>\<open>fetch_live_blacklist\<close>, with the exception that leaves it.\<close>

definition fetch_live_blacklist_try ::
  "pylib \<Rightarrow> server \<Rightarrow> string \<Rightarrow> request list \<Rightarrow> (error + int set) \<times> request list" where
  "fetch_live_blacklist_try py srv sheet_csv_url reqs =
     (case urlparse py sheet_csv_url of
        None \<Rightarrow> (Inl ValueError, reqs)
      | Some parsed \<Rightarrow>
          if scheme parsed \<noteq> ''https'' then (Inr {}, reqs)
          else if (case hostname parsed of None \<Rightarrow> [] | Some h \<Rightarrow> h) \<noteq> ''docs.google.com''
          then (Inr {}, reqs)
          else
            (case srv reqs (GetSheet sheet_csv_url) of
               NoReply \<Rightarrow> (Inl RequestException, reqs @ [GetSheet sheet_csv_url])
             | Reply ok body js \<Rightarrow>
                 if \<not> ok then (Inl HTTPError, reqs @ [GetSheet sheet_csv_url])
                 else
                   (case csv_reader py body of
                      None \<Rightarrow> (Inl CsvError, reqs @ [GetSheet sheet_csv_url])
                    | Some rows \<Rightarrow> (Inr (collect_ids rows), reqs @ [GetSheet sheet_csv_url]))))"

text \<open>\<^verbatim>\<open>except Exception: return set()\<close> around the block.\<close>

definition fetch_live_blacklist ::
  "pylib \<Rightarrow> server \<Rightarrow> string \<Rightarrow> request list \<Rightarrow> int set \<times> request list" where
  "fetch_live_blacklist py srv sheet_csv_url reqs =
     (if sheet_csv_url = [] then ({}, reqs)
      else
        (case fetch_live_blacklist_try py srv sheet_csv_url reqs of
           (Inl e, reqs') \<Rightarrow> ({}, reqs')
         | (Inr ids, reqs') \<Rightarrow> (ids, reqs')))"

section \<open>The verification run\<close>






section \<open>Notions used in the statements\<close>

text \<open>A page request fails when the call raises, the status is an error, the body is
  not JSON, or the decoded body is not a dictionary.\<close>

definition page_fails :: "server \<Rightarrow> request \<Rightarrow> request list \<Rightarrow> bool" where
  "page_fails srv req reqs =
     (case fst (fetch_json srv req reqs) of Inr (JObj kvs) \<Rightarrow> False | _ \<Rightarrow> True)"

text \<open>A server that answers every request with the same page and the same cursor.\<close>

definition same_page :: server where
  "same_page = (\<lambda>rs r. Reply True [] (Some (JObj [(''data'', JArr [JObj [(''id'', JInt 1)]]),
                                                    (''nextPageCursor'', JStr ''c'')])))"

text \<open>A badge counts as notable when \<^verbatim>\<open>int(badge.get("id"))\<close> succeeds and lies in
  \<^verbatim>\<open>BA_BADGE_IDS\<close>.\<close>

definition badge_id :: "json \<Rightarrow> json" where
  "badge_id badge = (case badge of JObj kvs \<Rightarrow> dict_get kvs ''id'' | _ \<Rightarrow> JNull)"

definition notable :: "config \<Rightarrow> json \<Rightarrow> bool" where
  "notable cfg badge = (case py_int (badge_id badge) of Inl e \<Rightarrow> False | Inr n \<Rightarrow> n \<in> BA_BADGE_IDS cfg)"

definition is_dict :: "json \<Rightarrow> bool" where
  "is_dict v = (case v of JObj kvs \<Rightarrow> True | _ \<Rightarrow> False)"

text \<open>A library whose functions accept nothing, and the constants of an empty
  \<^verbatim>\<open>config.json\<close>, for the examples.\<close>

definition no_lib :: pylib where
  "no_lib = \<lparr>repr_other = (\<lambda>v. []), fromisoformat = (\<lambda>s. None), urlparse = (\<lambda>s. None),
             csv_reader = (\<lambda>s. None)\<rparr>"

definition defaults :: config where
  "defaults = resolve no_lib []"

text \<open>An account with 40 friends whose badges come in two pages, the first with the
  cursor \<^verbatim>\<open>p2\<close>.\<close>

definition two_pages :: "json list \<Rightarrow> json list \<Rightarrow> server" where
  "two_pages p1 p2 =
     (\<lambda>rs r. case r of
        GetBadges uid order c \<Rightarrow>
          if c = None
          then Reply True [] (Some (JObj [(''data'', JArr p1), (''nextPageCursor'', JStr ''p2'')]))
          else Reply True [] (Some (JObj [(''data'', JArr p2), (''nextPageCursor'', JNull)]))
      | GetFriendCount uid \<Rightarrow> Reply True [] (Some (JObj [(''count'', JInt 40)]))
      | _ \<Rightarrow> NoReply)"

definition plain_badge :: json where
  "plain_badge = JObj [(''id'', JInt 1)]"

definition ba_badge :: json where
  "ba_badge = JObj [(''id'', JInt 999)]"




text \<open>A URL is accepted when \<^verbatim>\<open>urlparse\<close> reads it, its scheme is \<^verbatim>\<open>https\<close> and its host
  is \<^verbatim>\<open>docs.google.com\<close>. A sheet request fails when the call raises, the status is an
  error, or \<^verbatim>\<open>csv.reader\<close> raises on the body.\<close>

definition accepted :: "pylib \<Rightarrow> string \<Rightarrow> bool" where
  "accepted py url =
     (case urlparse py url of
        None \<Rightarrow> False
      | Some parsed \<Rightarrow> scheme parsed = ''https'' \<and> hostname parsed = Some ''docs.google.com'')"

definition sheet_fails :: "pylib \<Rightarrow> reply \<Rightarrow> bool" where
  "sheet_fails py rep =
     (case rep of
        NoReply \<Rightarrow> True
      | Reply ok body js \<Rightarrow> \<not> ok \<or> csv_reader py body = None)"

text \<open>A library that reads two URLs and one CSV text.\<close>

definition evil_url :: string where
  "evil_url = ''https://evil.example.com/export?format=csv''"

definition sheet_url :: string where
  "sheet_url = ''https://docs.google.com/spreadsheets/d/1/export?format=csv''"

definition url_lib :: pylib where
  "url_lib = no_lib\<lparr>
     urlparse := (\<lambda>s.
       if s = evil_url
       then Some \<lparr>scheme = ''https'', hostname = Some ''evil.example.com'', path = ''/export''\<rparr>
       else if s = sheet_url
       then Some \<lparr>scheme = ''https'', hostname = Some ''docs.google.com'',
                   path = ''/spreadsheets/d/1/export''\<rparr>
       else None),
     csv_reader := (\<lambda>s. if s = ''12, name'' @ [char_of (10 :: nat)] @ ''x7,345''
                         then Some [[''12'', '' name''], [''x7'', ''345'']] else None)\<rparr>"








text \<open>An account with 40 friends and no badge.\<close>

definition no_badges :: server where
  "no_badges = two_pages [] []"


section \<open>Properties\<close>

subsection \<open>Paginated badge fetches\<close>

lemma fetch_json_reqs: "snd (fetch_json srv req reqs) = reqs @ [req]"
  by (simp add: fetch_json_def split: reply.splits option.splits)

lemma oldest_page_reqs:
  "snd (oldest_page srv uid st reqs) =
     reqs @ [GetBadges uid ''Asc'' (cursor_param (cursor st))]"
proof -
  let ?req = "GetBadges uid ''Asc'' (cursor_param (cursor st))"
  obtain r l where f: "fetch_json srv ?req reqs = (r, l)" by (cases "fetch_json srv ?req reqs")
  with fetch_json_reqs [of srv ?req reqs] have l: "l = reqs @ [?req]" by simp
  show ?thesis
    unfolding oldest_page_def Let_def f l
    by (simp split: sum.splits json.splits bool.splits)
qed

lemma oldest_page_badges:
  "oldest_page srv uid st reqs = (r, reqs') \<Longrightarrow> st' = (case r of Break s \<Rightarrow> s | Continue s \<Rightarrow> s)
   \<Longrightarrow> prefix (badges st) (badges st')"
  unfolding oldest_page_def Let_def
  by (auto split: sum.splits json.splits bool.splits prod.splits if_splits)

lemma oldest_loop_reqs:
  "\<exists>new. snd (oldest_loop srv uid lmt mx st pages reqs) = reqs @ new \<and> length new \<le> nat (mx - pages)"
proof (induction srv uid lmt mx st pages reqs rule: oldest_loop.induct)
  case (1 srv uid lmt mx st pages reqs)
  show ?case
  proof (cases "int (length (badges st)) < lmt \<and> pages < mx")
    case False
    then have "oldest_loop srv uid lmt mx st pages reqs = (st, reqs)"
      by (subst oldest_loop.simps) auto
    then show ?thesis by simp
  next
    case True
    let ?req = "GetBadges uid ''Asc'' (cursor_param (cursor st))"
    obtain r l where p: "oldest_page srv uid st reqs = (r, l)" by (cases "oldest_page srv uid st reqs")
    with oldest_page_reqs [of srv uid st reqs] have l: "l = reqs @ [?req]" by simp
    show ?thesis
    proof (cases r)
      case (Break s)
      with True p l have "snd (oldest_loop srv uid lmt mx st pages reqs) = reqs @ [?req]"
        by (simp add: oldest_loop.simps)
      moreover from True have "length [?req] \<le> nat (mx - pages)" by (simp add: Suc_le_eq)
      ultimately show ?thesis by blast
    next
      case (Continue s)
      from "1.IH" [OF True p [symmetric] Continue]
      obtain new where n: "snd (oldest_loop srv uid lmt mx s (pages + 1) l) = l @ new"
        "length new \<le> nat (mx - (pages + 1))" by blast
      from True p Continue have "oldest_loop srv uid lmt mx st pages reqs = oldest_loop srv uid lmt mx s (pages + 1) l"
        by (subst oldest_loop.simps) simp
      with n l have "snd (oldest_loop srv uid lmt mx st pages reqs) = reqs @ (?req # new)" by simp
      moreover from n True have "length (?req # new) \<le> nat (mx - pages)" by (simp add: nat_diff_distrib le_diff_conv) linarith
      ultimately show ?thesis by blast
    qed
  qed
qed


lemma count_page_reqs:
  "snd (count_page srv uid thr st reqs) =
     reqs @ [GetBadges uid ''Desc'' (cursor_param (count_cursor st))]"
proof -
  let ?req = "GetBadges uid ''Desc'' (cursor_param (count_cursor st))"
  obtain r l where f: "fetch_json srv ?req reqs = (r, l)" by (cases "fetch_json srv ?req reqs")
  with fetch_json_reqs [of srv ?req reqs] have l: "l = reqs @ [?req]" by simp
  show ?thesis
    unfolding count_page_def Let_def f l
    by (simp split: sum.splits json.splits bool.splits)
qed

lemma count_loop_reqs:
  "\<exists>new. snd (count_loop srv uid thr mx st pages reqs) = reqs @ new \<and> length new \<le> nat (mx - pages)"
proof (induction srv uid thr mx st pages reqs rule: count_loop.induct)
  case (1 srv uid thr mx st pages reqs)
  show ?case
  proof (cases "pages < mx")
    case False
    then have "count_loop srv uid thr mx st pages reqs = (st, reqs)"
      by (subst count_loop.simps) auto
    then show ?thesis by simp
  next
    case True
    let ?req = "GetBadges uid ''Desc'' (cursor_param (count_cursor st))"
    obtain r l where p: "count_page srv uid thr st reqs = (r, l)" by (cases "count_page srv uid thr st reqs")
    with count_page_reqs [of srv uid thr st reqs] have l: "l = reqs @ [?req]" by simp
    show ?thesis
    proof (cases r)
      case (Break s)
      with True p l have "snd (count_loop srv uid thr mx st pages reqs) = reqs @ [?req]"
        by (simp add: count_loop.simps)
      moreover from True have "length [?req] \<le> nat (mx - pages)" by (simp add: Suc_le_eq)
      ultimately show ?thesis by blast
    next
      case (Continue s)
      from "1.IH" [OF True p [symmetric] Continue]
      obtain new where n: "snd (count_loop srv uid thr mx s (pages + 1) l) = l @ new"
        "length new \<le> nat (mx - (pages + 1))" by blast
      from True p Continue have "count_loop srv uid thr mx st pages reqs = count_loop srv uid thr mx s (pages + 1) l"
        by (subst count_loop.simps) simp
      with n l have "snd (count_loop srv uid thr mx st pages reqs) = reqs @ (?req # new)" by simp
      moreover from n True have "length (?req # new) \<le> nat (mx - pages)"
        by (simp add: nat_diff_distrib le_diff_conv)
      ultimately show ?thesis by blast
    qed
  qed
qed

lemma oldest_page_fails:
  "page_fails srv (GetBadges uid ''Asc'' (cursor_param (cursor st))) reqs \<Longrightarrow>
   oldest_page srv uid st reqs = (Break st, reqs @ [GetBadges uid ''Asc'' (cursor_param (cursor st))])"
proof -
  let ?req = "GetBadges uid ''Asc'' (cursor_param (cursor st))"
  assume a: "page_fails srv (GetBadges uid ''Asc'' (cursor_param (cursor st))) reqs"
  obtain r l where f: "fetch_json srv ?req reqs = (r, l)" by (cases "fetch_json srv ?req reqs")
  with fetch_json_reqs [of srv ?req reqs] have l: "l = reqs @ [?req]" by simp
  from a f have "\<forall>kvs. r \<noteq> Inr (JObj kvs)"
    by (auto simp: page_fails_def split: sum.splits json.splits)
  then show ?thesis
    unfolding oldest_page_def Let_def f l
    by (simp split: sum.splits json.splits)
qed

lemma count_page_fails:
  "page_fails srv (GetBadges uid ''Desc'' (cursor_param (count_cursor st))) reqs \<Longrightarrow>
   count_page srv uid thr st reqs = (Break st, reqs @ [GetBadges uid ''Desc'' (cursor_param (count_cursor st))])"
proof -
  let ?req = "GetBadges uid ''Desc'' (cursor_param (count_cursor st))"
  assume a: "page_fails srv (GetBadges uid ''Desc'' (cursor_param (count_cursor st))) reqs"
  obtain r l where f: "fetch_json srv ?req reqs = (r, l)" by (cases "fetch_json srv ?req reqs")
  with fetch_json_reqs [of srv ?req reqs] have l: "l = reqs @ [?req]" by simp
  from a f have "\<forall>kvs. r \<noteq> Inr (JObj kvs)"
    by (auto simp: page_fails_def split: sum.splits json.splits)
  then show ?thesis
    unfolding count_page_def Let_def f l
    by (simp split: sum.splits json.splits)
qed

lemma oldest_loop_neg: "lmt \<le> 0 \<Longrightarrow> oldest_loop srv uid lmt mx st pages reqs = (st, reqs)"
  by (subst oldest_loop.simps) auto

lemma length_slice_to: "0 \<le> n \<Longrightarrow> length (slice_to xs n) \<le> nat n"
  by (simp add: slice_to_def)

lemma get_oldest_badges_length:
  "length (fst (get_oldest_badges cfg srv uid lmt reqs)) \<le> nat lmt"
proof (cases "0 \<le> lmt")
  case True
  then show ?thesis
    by (simp add: get_oldest_badges_def length_slice_to split: prod.splits)
next
  case False
  then show ?thesis
    by (simp add: get_oldest_badges_def oldest_loop_neg slice_to_def)
qed

text \<open>
  C10: whatever the limit and whatever the server answers, the list that
  \<^verbatim>\<open>get_oldest_badges\<close> returns has at most \<^verbatim>\<open>total_limit\<close> badges (none when the limit
  is negative), also when a page has carried the accumulated list past the limit.
\<close>

theorem get_oldest_badges_at_most_limit:
  "length (fst (get_oldest_badges cfg srv uid lmt reqs)) \<le> nat lmt"
  by (rule get_oldest_badges_length)

text \<open>A first page of three badges for the limit 2: the list is cut to two.\<close>

lemma get_oldest_badges_overshoot:
  "get_oldest_badges (cfg\<lparr>MAX_BADGE_PAGES := 10\<rparr>) (two_pages [plain_badge, plain_badge, ba_badge] []) 7 2 []
     = ([plain_badge, plain_badge], [GetBadges 7 ''Asc'' None])"
  by (simp add: get_oldest_badges_def oldest_loop.simps oldest_page_def two_pages_def fetch_json_def
      cursor_param_def dict_get_default_def dict_get_def py_or_def set_contains_def py_eq_def Let_def
      slice_to_def)

text \<open>
  C5: whatever the server answers, \<^verbatim>\<open>get_oldest_badges\<close> and \<^verbatim>\<open>get_total_badge_count\<close>
  each return after at most \<^verbatim>\<open>MAX_BADGE_PAGES\<close> page requests (none when that constant is
  not positive). When a page request fails in the loop, the loop ends at once and gives
  back what it has accumulated, with no exception.
\<close>

theorem badge_fetches_bounded:
  "(\<exists>new. snd (get_oldest_badges cfg srv uid lmt reqs) = reqs @ new
           \<and> length new \<le> nat (MAX_BADGE_PAGES cfg))
   \<and> (\<exists>new. snd (get_total_badge_count cfg srv uid thr reqs) = reqs @ new
           \<and> length new \<le> nat (MAX_BADGE_PAGES cfg))
   \<and> (int (length (badges st)) < lmt \<and> pages < mx
        \<and> page_fails srv (GetBadges uid ''Asc'' (cursor_param (cursor st))) rs
       \<longrightarrow> oldest_loop srv uid lmt mx st pages rs
             = (st, rs @ [GetBadges uid ''Asc'' (cursor_param (cursor st))]))
   \<and> (pages < mx \<and> page_fails srv (GetBadges uid ''Desc'' (cursor_param (count_cursor ct))) rs
       \<longrightarrow> count_loop srv uid thr mx ct pages rs
             = (ct, rs @ [GetBadges uid ''Desc'' (cursor_param (count_cursor ct))]))"
proof (intro conjI impI)
  let ?init = "\<lparr>badges = [], cursor = JStr [], seen_cursors = []\<rparr>"
  from oldest_loop_reqs [of srv uid lmt "MAX_BADGE_PAGES cfg" ?init 0 reqs]
  show "\<exists>new. snd (get_oldest_badges cfg srv uid lmt reqs) = reqs @ new
           \<and> length new \<le> nat (MAX_BADGE_PAGES cfg)"
    by (simp add: get_oldest_badges_def case_prod_beta)
next
  let ?init = "\<lparr>total_badges = 0, count_cursor = JStr [], count_seen = []\<rparr>"
  from count_loop_reqs [of srv uid thr "MAX_BADGE_PAGES cfg" ?init 0 reqs]
  show "\<exists>new. snd (get_total_badge_count cfg srv uid thr reqs) = reqs @ new
           \<and> length new \<le> nat (MAX_BADGE_PAGES cfg)"
    by (simp add: get_total_badge_count_def case_prod_beta)
next
  assume a: "int (length (badges st)) < lmt \<and> pages < mx
        \<and> page_fails srv (GetBadges uid ''Asc'' (cursor_param (cursor st))) rs"
  then have "oldest_page srv uid st rs = (Break st, rs @ [GetBadges uid ''Asc'' (cursor_param (cursor st))])"
    by (simp add: oldest_page_fails)
  with a show "oldest_loop srv uid lmt mx st pages rs
             = (st, rs @ [GetBadges uid ''Asc'' (cursor_param (cursor st))])"
    by (subst oldest_loop.simps) simp
next
  assume a: "pages < mx \<and> page_fails srv (GetBadges uid ''Desc'' (cursor_param (count_cursor ct))) rs"
  then have "count_page srv uid thr ct rs = (Break ct, rs @ [GetBadges uid ''Desc'' (cursor_param (count_cursor ct))])"
    by (simp add: count_page_fails)
  with a show "count_loop srv uid thr mx ct pages rs
             = (ct, rs @ [GetBadges uid ''Desc'' (cursor_param (count_cursor ct))])"
    by (subst count_loop.simps) simp
qed

theorem badge_fetches_bounded_witness:
  "page_fails (\<lambda>rs r. NoReply) (GetBadges 7 ''Asc'' (Some (JStr ''c''))) []
   \<and> oldest_loop (\<lambda>rs r. NoReply) 7 5 10 \<lparr>badges = [JInt 1], cursor = JStr ''c'', seen_cursors = [JStr ''c'']\<rparr> 0 []
       = (\<lparr>badges = [JInt 1], cursor = JStr ''c'', seen_cursors = [JStr ''c'']\<rparr>, [GetBadges 7 ''Asc'' (Some (JStr ''c''))])
   \<and> page_fails (\<lambda>rs r. NoReply) (GetBadges 7 ''Desc'' (Some (JStr ''c''))) []
   \<and> count_loop (\<lambda>rs r. NoReply) 7 300 10 \<lparr>total_badges = 100, count_cursor = JStr ''c'', count_seen = [JStr ''c'']\<rparr> 0 []
       = (\<lparr>total_badges = 100, count_cursor = JStr ''c'', count_seen = [JStr ''c'']\<rparr>, [GetBadges 7 ''Desc'' (Some (JStr ''c''))])"
  using badge_fetches_bounded [of undefined "\<lambda>rs r. NoReply" 7 5 "[]" 300
     "\<lparr>badges = [JInt 1], cursor = JStr ''c'', seen_cursors = [JStr ''c'']\<rparr>" 0 10 "[]"
     "\<lparr>total_badges = 100, count_cursor = JStr ''c'', count_seen = [JStr ''c'']\<rparr>"]
  by (simp add: page_fails_def fetch_json_def cursor_param_def)


text \<open>The server that repeats one page and one cursor is stopped by the cursor check at the
  second request.\<close>

lemma same_page_oldest:
  "get_oldest_badges (cfg\<lparr>MAX_BADGE_PAGES := 10\<rparr>) same_page 7 90 []
     = ([JObj [(''id'', JInt 1)], JObj [(''id'', JInt 1)]],
        [GetBadges 7 ''Asc'' None, GetBadges 7 ''Asc'' (Some (JStr ''c''))])"
  by (simp add: get_oldest_badges_def oldest_loop.simps oldest_page_def same_page_def fetch_json_def
      cursor_param_def dict_get_default_def dict_get_def py_or_def set_contains_def py_eq_def slice_to_def Let_def)

lemma same_page_count:
  "get_total_badge_count (cfg\<lparr>MAX_BADGE_PAGES := 10\<rparr>) same_page 7 300 []
     = (2, [GetBadges 7 ''Desc'' None, GetBadges 7 ''Desc'' (Some (JStr ''c''))])"
  by (simp add: get_total_badge_count_def count_loop.simps count_page_def same_page_def fetch_json_def
      cursor_param_def dict_get_default_def dict_get_def py_or_def set_contains_def py_eq_def Let_def)

subsection \<open>Scan of the oldest badges\<close>

lemma defaults_simps:
  "OLDEST_BADGES_TO_CHECK defaults = 90" "MAX_BADGE_PAGES defaults = 10" "MIN_BADGE_COUNT defaults = 300"
  "MIN_FRIEND_COUNT defaults = 30" "MIN_NON_BA_GROUP_COUNT defaults = 13" "BA_BADGE_IDS defaults = {}"
  "MIN_ACCOUNT_AGE_DAYS defaults = 60" "USERNAME_DIGIT_THRESHOLD defaults = 4"
  by (simp_all add: defaults_def resolve_def get_int_cfg_def dict_get_default_def)

lemma scan_oldest_find:
  "list_all is_dict bs \<Longrightarrow>
   scan_oldest py cfg bs =
     Inr (case find (notable cfg) bs of None \<Rightarrow> [] | Some b \<Rightarrow> [ba_badge_msg py (badge_id b)])"
proof (induction bs)
  case Nil
  then show ?case by simp
next
  case (Cons b bs)
  then obtain kvs where b: "b = JObj kvs" by (cases b) (auto simp: is_dict_def)
  with Cons show ?case
    by (cases "dict_get kvs ''id'' = JNull")
       (auto simp: notable_def badge_id_def Let_def split: sum.splits)
qed

lemma scan_oldest_stops:
  "notable cfg b \<Longrightarrow> scan_oldest py cfg (pre @ b # rest) = scan_oldest py cfg (pre @ [b])"
proof (induction pre)
  case Nil
  then show ?case
    by (cases b) (auto simp: notable_def badge_id_def Let_def split: sum.splits)
next
  case (Cons a pre)
  then show ?case
    by (cases a) (auto simp: Let_def split: sum.splits)
qed

lemma scan_oldest_ok_dicts:
  "scan_oldest py cfg bs = Inr found \<Longrightarrow>
   found = (case find (notable cfg) bs of None \<Rightarrow> [] | Some b \<Rightarrow> [ba_badge_msg py (badge_id b)])"
proof (induction bs)
  case Nil
  then show ?case by simp
next
  case (Cons b bs)
  show ?case
  proof (cases b)
    case (JObj kvs)
    with Cons show ?thesis
      by (cases "dict_get kvs ''id'' = JNull")
         (auto simp: notable_def badge_id_def Let_def split: sum.splits if_splits)
  qed (use Cons in auto)
qed


lemma two_pages_friends:
  "get_friend_count (two_pages p1 p2) uid reqs = (Some 40, reqs @ [GetFriendCount uid])"
  by (simp add: get_friend_count_def fetch_json_def two_pages_def dict_get_def int_or_none_def)

lemma two_pages_count:
  "p1 \<noteq> [] \<Longrightarrow> int (length p1) < thr \<Longrightarrow> 2 \<le> MAX_BADGE_PAGES cfg \<Longrightarrow>
   get_total_badge_count cfg (two_pages p1 p2) uid thr reqs
     = (int (length p1) + int (length p2),
        reqs @ [GetBadges uid ''Desc'' None, GetBadges uid ''Desc'' (Some (JStr ''p2''))])"
  by (cases "p2 = []")
     (simp_all add: get_total_badge_count_def count_loop.simps count_page_def two_pages_def fetch_json_def
      cursor_param_def dict_get_default_def dict_get_def py_or_def set_contains_def py_eq_def Let_def)


lemma two_pages_oldest_short:
  "p1 \<noteq> [] \<Longrightarrow> int (length p1) < lmt \<Longrightarrow> 2 \<le> MAX_BADGE_PAGES cfg \<Longrightarrow>
   get_oldest_badges cfg (two_pages p1 []) uid lmt reqs
     = (p1, reqs @ [GetBadges uid ''Asc'' None, GetBadges uid ''Asc'' (Some (JStr ''p2''))])"
  by (simp add: get_oldest_badges_def oldest_loop.simps oldest_page_def two_pages_def fetch_json_def
      cursor_param_def dict_get_default_def dict_get_def py_or_def set_contains_def py_eq_def Let_def
      slice_to_def)

lemma two_pages_oldest_full:
  "p1 \<noteq> [] \<Longrightarrow> int (length p1) = lmt \<Longrightarrow> 1 \<le> MAX_BADGE_PAGES cfg \<Longrightarrow>
   get_oldest_badges cfg (two_pages p1 p2) uid lmt reqs = (p1, reqs @ [GetBadges uid ''Asc'' None])"
  by (cases p1) (auto simp add: get_oldest_badges_def oldest_loop.simps oldest_page_def two_pages_def fetch_json_def
      cursor_param_def dict_get_default_def dict_get_def py_or_def set_contains_def py_eq_def Let_def
      slice_to_def)

text \<open>
  C9, as amended: the social-activity check scans the list that \<^verbatim>\<open>get_oldest_badges\<close>
  returns for the limit \<^verbatim>\<open>min(OLDEST_BADGES_TO_CHECK, 100)\<close>, which has at most that many
  badges; the flags it returns end with exactly one flag for the first scanned badge
  whose identifier is in \<^verbatim>\<open>BA_BADGE_IDS\<close>, and with none when there is no such badge. The
  scan stops at that badge: what follows it in the list is not looked at.
\<close>

theorem oldest_badge_scan:
  "(fst (check_social_activity py cfg srv uid groups reqs) = Inr flags \<longrightarrow>
      (let r1 = get_friend_count srv uid reqs;
           r2 = get_total_badge_count cfg srv uid (MIN_BADGE_COUNT cfg) (snd r1);
           scanned = fst (get_oldest_badges cfg srv uid (min (OLDEST_BADGES_TO_CHECK cfg) 100) (snd r2))
       in length scanned \<le> nat (min (OLDEST_BADGES_TO_CHECK cfg) 100)
          \<and> (\<exists>n. flags = friend_flags cfg (fst r1) @ group_flags cfg n @ badge_flags cfg (fst r2)
                     @ (case find (notable cfg) scanned of
                          None \<Rightarrow> []
                        | Some b \<Rightarrow> [ba_badge_msg py (badge_id b)]))))
   \<and> (notable cfg b \<longrightarrow> scan_oldest py cfg (pre @ b # rest) = scan_oldest py cfg (pre @ [b]))"
proof (intro conjI impI)
  assume a: "fst (check_social_activity py cfg srv uid groups reqs) = Inr flags"
  obtain fc rs1 where r1: "get_friend_count srv uid reqs = (fc, rs1)"
    by (cases "get_friend_count srv uid reqs")
  obtain bc rs2 where r2: "get_total_badge_count cfg srv uid (MIN_BADGE_COUNT cfg) rs1 = (bc, rs2)"
    by (cases "get_total_badge_count cfg srv uid (MIN_BADGE_COUNT cfg) rs1")
  obtain scanned rs3 where r3:
    "get_oldest_badges cfg srv uid (min (OLDEST_BADGES_TO_CHECK cfg) 100) rs2 = (scanned, rs3)"
    by (cases "get_oldest_badges cfg srv uid (min (OLDEST_BADGES_TO_CHECK cfg) 100) rs2")
  from a r1 r2 r3 obtain n found where
    n: "count_non_ba_groups cfg groups 0 = Inr n" and
    f: "scan_oldest py cfg scanned = Inr found" and
    fl: "flags = friend_flags cfg fc @ group_flags cfg n @ badge_flags cfg bc @ found"
    by (auto simp: check_social_activity_def split: sum.splits)
  from f have "found = (case find (notable cfg) scanned of None \<Rightarrow> []
                        | Some b \<Rightarrow> [ba_badge_msg py (badge_id b)])"
    by (rule scan_oldest_ok_dicts)
  moreover from get_oldest_badges_length [of cfg srv uid "min (OLDEST_BADGES_TO_CHECK cfg) 100" rs2] r3
  have "length scanned \<le> nat (min (OLDEST_BADGES_TO_CHECK cfg) 100)" by simp
  ultimately show "let r1 = get_friend_count srv uid reqs;
           r2 = get_total_badge_count cfg srv uid (MIN_BADGE_COUNT cfg) (snd r1);
           scanned = fst (get_oldest_badges cfg srv uid (min (OLDEST_BADGES_TO_CHECK cfg) 100) (snd r2))
       in length scanned \<le> nat (min (OLDEST_BADGES_TO_CHECK cfg) 100)
          \<and> (\<exists>n. flags = friend_flags cfg (fst r1) @ group_flags cfg n @ badge_flags cfg (fst r2)
                     @ (case find (notable cfg) scanned of
                          None \<Rightarrow> []
                        | Some b \<Rightarrow> [ba_badge_msg py (badge_id b)]))"
    using r1 r2 r3 fl by (auto simp: Let_def)
next
  assume "notable cfg b"
  then show "scan_oldest py cfg (pre @ b # rest) = scan_oldest py cfg (pre @ [b])"
    by (rule scan_oldest_stops)
qed

theorem oldest_badge_scan_witness:
  "fst (check_social_activity no_lib (defaults\<lparr>BA_BADGE_IDS := {999}\<rparr>)
          (two_pages [plain_badge, ba_badge, ba_badge] []) 7 [] [])
     = Inr (group_flags defaults 0 @ badge_flags defaults 3 @ [ba_badge_msg no_lib (JInt 999)])
   \<and> notable (defaults\<lparr>BA_BADGE_IDS := {999}\<rparr>) ba_badge
   \<and> scan_oldest no_lib (defaults\<lparr>BA_BADGE_IDS := {999}\<rparr>) ([plain_badge] @ ba_badge # [JNull])
       = Inr [ba_badge_msg no_lib (JInt 999)]"
proof -
  let ?cfg = "defaults\<lparr>BA_BADGE_IDS := {999}\<rparr>"
  let ?srv = "two_pages [plain_badge, ba_badge, ba_badge] []"
  have h: "fst (check_social_activity no_lib ?cfg ?srv 7 [] [])
     = Inr (group_flags defaults 0 @ badge_flags defaults 3 @ [ba_badge_msg no_lib (JInt 999)])"
    by (simp add: check_social_activity_def two_pages_friends two_pages_count two_pages_oldest_short
        defaults_simps friend_flags_def group_flags_def badge_flags_def plain_badge_def ba_badge_def
        dict_get_def Let_def)
  have n: "notable ?cfg ba_badge"
    by (simp add: notable_def badge_id_def ba_badge_def dict_get_def)
  from oldest_badge_scan [of no_lib ?cfg ?srv 7 "[]" "[]"
      "group_flags defaults 0 @ badge_flags defaults 3 @ [ba_badge_msg no_lib (JInt 999)]"
      ba_badge "[plain_badge]" "[JNull]"] h n
  show ?thesis
    by (simp add: plain_badge_def ba_badge_def dict_get_def Let_def)
qed

text \<open>
  C9 as stated fails for a configured value above 100: with
  \<^verbatim>\<open>OLDEST_BADGES_TO_CHECK = 150\<close> and an account whose 101st oldest badge is in
  \<^verbatim>\<open>BA_BADGE_IDS\<close>, only the first page of 100 badges is scanned and no flag for the
  badge is added.
\<close>

theorem oldest_badge_scan_counterexample:
  "OLDEST_BADGES_TO_CHECK (defaults\<lparr>OLDEST_BADGES_TO_CHECK := 150, BA_BADGE_IDS := {999}\<rparr>) = 150
   \<and> notable (defaults\<lparr>OLDEST_BADGES_TO_CHECK := 150, BA_BADGE_IDS := {999}\<rparr>)
        ((replicate 100 plain_badge @ [ba_badge]) ! 100)
   \<and> fst (check_social_activity no_lib (defaults\<lparr>OLDEST_BADGES_TO_CHECK := 150, BA_BADGE_IDS := {999}\<rparr>)
            (two_pages (replicate 100 plain_badge) [ba_badge]) 7 [] [])
       = Inr [''Fewer than 13 non-BA groups (0).'', ''Fewer than 300 badges (101 total).'']"
proof -
  let ?cfg = "defaults\<lparr>OLDEST_BADGES_TO_CHECK := 150, BA_BADGE_IDS := {999}\<rparr>"
  have d: "list_all is_dict (replicate 100 plain_badge)"
    by (simp add: list_all_iff is_dict_def plain_badge_def)
  have f: "find (notable ?cfg) (replicate 100 plain_badge) = None"
    by (simp add: find_None_iff notable_def badge_id_def plain_badge_def dict_get_def)
  have s: "scan_oldest no_lib ?cfg (replicate 100 plain_badge) = Inr []"
    by (simp add: scan_oldest_find [OF d] f)
  have n: "notable ?cfg ((replicate 100 plain_badge @ [ba_badge]) ! 100)"
    by (simp add: nth_append notable_def badge_id_def ba_badge_def dict_get_def)
  have c: "fst (check_social_activity no_lib ?cfg (two_pages (replicate 100 plain_badge) [ba_badge]) 7 [] [])
       = Inr (group_flags defaults 0 @ badge_flags defaults 101)"
    by (simp add: check_social_activity_def two_pages_friends two_pages_count two_pages_oldest_full
        defaults_simps friend_flags_def group_flags_def badge_flags_def s)
  have t: "group_flags defaults 0 @ badge_flags defaults 101
             = [''Fewer than 13 non-BA groups (0).'', ''Fewer than 300 badges (101 total).'']"
    by (simp add: group_flags_def badge_flags_def defaults_simps str_int_def dec_nat.simps
        digit_char_def char_of_def bit_Suc_0_iff)
  from n c t show ?thesis by simp
qed

subsection \<open>Username check\<close>







subsection \<open>Blacklist check\<close>








subsection \<open>Account age\<close>


lemma parse_created_else_aware:
  "\<not> endswith s ''Z'' \<Longrightarrow> parse_created py (JStr s) = Some d \<Longrightarrow> utcoffset_us d \<noteq> None"
  by (auto simp: parse_created_def split: option.splits if_splits)





subsection \<open>Missing or unreadable creation date\<close>









subsection \<open>Live blacklist\<close>

lemma fetch_live_blacklist_not_accepted:
  "sheet_csv_url = [] \<or> \<not> accepted py sheet_csv_url \<Longrightarrow>
   fetch_live_blacklist py srv sheet_csv_url reqs = ({}, reqs)"
  by (auto simp: fetch_live_blacklist_def fetch_live_blacklist_try_def accepted_def
      split: option.splits)

lemma fetch_live_blacklist_fails:
  "sheet_csv_url \<noteq> [] \<Longrightarrow> accepted py sheet_csv_url \<Longrightarrow>
   sheet_fails py (srv reqs (GetSheet sheet_csv_url)) \<Longrightarrow>
   fetch_live_blacklist py srv sheet_csv_url reqs = ({}, reqs @ [GetSheet sheet_csv_url])"
  by (auto simp: fetch_live_blacklist_def fetch_live_blacklist_try_def accepted_def sheet_fails_def
      split: option.splits reply.splits)

lemma fetch_live_blacklist_raise:
  "fst (fetch_live_blacklist_try py srv sheet_csv_url reqs) = Inl e \<Longrightarrow>
   fst (fetch_live_blacklist py srv sheet_csv_url reqs) = {}"
  by (auto simp: fetch_live_blacklist_def split: prod.splits sum.splits)

lemma evil_not_accepted: "\<not> accepted url_lib evil_url"
  by (simp add: accepted_def url_lib_def no_lib_def)

lemma sheet_accepted: "accepted url_lib sheet_url"
  by (simp add: accepted_def url_lib_def no_lib_def sheet_url_def evil_url_def)

text \<open>
  C6: for an empty URL, a URL that \<^verbatim>\<open>urlparse\<close> rejects, a scheme other than \<^verbatim>\<open>https\<close> or
  a host other than \<^verbatim>\<open>docs.google.com\<close>, \<^verbatim>\<open>fetch_live_blacklist\<close> returns the empty set
  and makes no request. For an accepted URL, a failed request, an error status or a CSV
  error gives the empty set after the one request; whatever exception leaves the
  \<^verbatim>\<open>try\<close> block, the function returns the empty set.
\<close>

theorem live_blacklist_rejects:
  "(sheet_csv_url = [] \<or> \<not> accepted py sheet_csv_url
      \<longrightarrow> fetch_live_blacklist py srv sheet_csv_url reqs = ({}, reqs))
   \<and> (sheet_csv_url \<noteq> [] \<and> accepted py sheet_csv_url
        \<and> sheet_fails py (srv reqs (GetSheet sheet_csv_url))
      \<longrightarrow> fetch_live_blacklist py srv sheet_csv_url reqs = ({}, reqs @ [GetSheet sheet_csv_url]))
   \<and> (fst (fetch_live_blacklist_try py srv sheet_csv_url reqs) = Inl e
      \<longrightarrow> fst (fetch_live_blacklist py srv sheet_csv_url reqs) = {})"
  by (simp add: fetch_live_blacklist_not_accepted fetch_live_blacklist_fails fetch_live_blacklist_raise)

theorem live_blacklist_rejects_witness:
  "\<not> accepted url_lib evil_url
   \<and> fetch_live_blacklist url_lib (\<lambda>rs r. Reply True ''1,2,3'' None) evil_url [] = ({}, [])
   \<and> accepted url_lib sheet_url
   \<and> sheet_fails url_lib NoReply
   \<and> fetch_live_blacklist url_lib (\<lambda>rs r. NoReply) sheet_url [] = ({}, [GetSheet sheet_url])
   \<and> fst (fetch_live_blacklist_try url_lib (\<lambda>rs r. NoReply) sheet_url []) = Inl RequestException
   \<and> fst (fetch_live_blacklist url_lib (\<lambda>rs r. NoReply) sheet_url []) = {}"
proof -
  have n: "sheet_url \<noteq> []" by (simp add: sheet_url_def)
  have f: "sheet_fails url_lib NoReply" by (simp add: sheet_fails_def)
  have t: "fst (fetch_live_blacklist_try url_lib (\<lambda>rs r. NoReply) sheet_url []) = Inl RequestException"
    by (simp add: fetch_live_blacklist_try_def url_lib_def no_lib_def sheet_url_def evil_url_def)
  from live_blacklist_rejects [of evil_url url_lib "\<lambda>rs r. Reply True ''1,2,3'' None" "[]" RequestException]
       live_blacklist_rejects [of sheet_url url_lib "\<lambda>rs r. NoReply" "[]" RequestException]
       evil_not_accepted sheet_accepted n f t
  show ?thesis by simp
qed

text \<open>An accepted sheet: the cells that are numbers after stripping are collected.\<close>

lemma live_blacklist_example:
  "fetch_live_blacklist url_lib
     (\<lambda>rs r. Reply True (''12, name'' @ [char_of (10 :: nat)] @ ''x7,345'') None) sheet_url []
     = ({12, 345}, [GetSheet sheet_url])"
proof -
  have c: "add_cell ids ''12'' = insert 12 ids" "add_cell ids '' name'' = ids"
    "add_cell ids ''x7'' = ids" "add_cell ids ''345'' = insert 345 ids" for ids
    by (simp_all add: add_cell_def strip_def isspace_char_def isdigit_def isdigit_char_def
        is_decimal_def code_def int_of_str_def dec_body_def Let_def)
  show ?thesis
    by (simp add: fetch_live_blacklist_def fetch_live_blacklist_try_def url_lib_def no_lib_def
        sheet_url_def evil_url_def collect_ids_def c insert_commute)
qed

subsection \<open>Configuration resolver\<close>







subsection \<open>Aggregation\<close>


















lemma no_badges_friends:
  "get_friend_count no_badges uid reqs = (Some 40, reqs @ [GetFriendCount uid])"
  by (simp add: no_badges_def two_pages_friends)





text \<open>A membership whose \<^verbatim>\<open>group\<close> entry is a string is skipped by \<^verbatim>\<open>check_blacklists\<close>,
  which tests \<^verbatim>\<open>isinstance(grp, dict)\<close>, and makes \<^verbatim>\<open>check_social_activity\<close> raise, which
  tests \<^verbatim>\<open>if not grp\<close> only: such a run ends with no report.\<close>

lemma social_check_raises:
  "check_social_activity py cfg no_badges 7 [JObj [(''group'', JStr ''x'')]] []
     = (Inl AttributeError, [GetFriendCount 7])"
  by (simp add: check_social_activity_def no_badges_friends is_non_ba_group_def dict_get_def)

lemma blacklists_skip_malformed:
  "check_blacklists py cfg uid [JObj [(''group'', JStr ''x'')]] {} 
     = (if uid \<in> BA_BLACKLIST_IDS cfg then [''User is on the BA Blacklist.''] else [])"
  by (simp add: check_blacklists_def group_dismissals_def dict_get_def)

end
